theory Spec2Isabelle
  imports Complex_Main "HOL-Library.Log_Nat"
begin

section \<open>Configuration constants\<close>

text \<open>
  The module-level constants of \<^verbatim>\<open>flappy_pygame.py\<close>. The integer ones are Python
  ints (unbounded, so \<^typ>\<open>int\<close>); \<^verbatim>\<open>GRAVITY\<close> and \<^verbatim>\<open>FLAP_STRENGTH\<close> are Python floats
  and are defined after the model of double arithmetic below.
\<close>

definition WIDTH :: int where "WIDTH = 400"
definition HEIGHT :: int where "HEIGHT = 640"
definition BIRD_X :: int where "BIRD_X = 80"
definition BIRD_WIDTH :: int where "BIRD_WIDTH = 34"
definition BIRD_HEIGHT :: int where "BIRD_HEIGHT = 24"
definition PIPE_WIDTH :: int where "PIPE_WIDTH = 70"
definition PIPE_GAP :: int where "PIPE_GAP = 150"
definition PIPE_SPACING :: int where "PIPE_SPACING = 150"
definition PIPE_SPEED_BASE :: int where "PIPE_SPEED_BASE = 3"
definition FLOOR_HEIGHT :: int where "FLOOR_HEIGHT = 100"
definition COIN_RADIUS :: int where "COIN_RADIUS = 10"
definition COIN_BONUS :: int where "COIN_BONUS = 5"
definition PARTICLE_LIFETIME :: int where "PARTICLE_LIFETIME = 30"

section \<open>Python floats\<close>

text \<open>
  A Python float is an IEEE-754 binary64 number. A finite one is a rational, and every
  arithmetic operation returns the exact result rounded to the nearest number with a
  53-bit significand, ties going to the even significand. \<open>fl\<close> is that rounding:
  \<open>ilog2 q\<close> is the binary exponent of \<open>q\<close>, the spacing of the doubles around \<open>q\<close> is
  \<open>2 ^ (ilog2 q - 52)\<close>, and below \<open>2 ^ - 1022\<close> (the subnormal range) it stays
  \<open>2 ^ - 1074\<close>. Outside the model: the sign of zero, and overflow to infinity at
  \<open>2 ^ 1024\<close> (the exponent is unbounded above here), hence also NaN; the game's
  quantities are bounded by a few thousand.
\<close>

definition ilog2 :: "rat \<Rightarrow> int" where
  "ilog2 q = (case quotient_of \<bar>q\<bar> of (p, d) \<Rightarrow>
     (let k = bitlen p - bitlen d
      in if d * 2 ^ nat k \<le> p * 2 ^ nat (- k) then k else k - 1))"

definition pow2 :: "int \<Rightarrow> rat" where
  "pow2 e = (if 0 \<le> e then 2 ^ nat e else 1 / 2 ^ nat (- e))"

definition round_half_even :: "rat \<Rightarrow> int" where
  "round_half_even t = (let n = \<lfloor>t\<rfloor>; r = t - of_int n
     in if r < 1 / 2 then n else if 1 / 2 < r then n + 1
        else if even n then n else n + 1)"

definition fl :: "rat \<Rightarrow> rat" where
  "fl q = (if q = 0 then 0
     else let u = pow2 (max (ilog2 q) (- 1022) - 52)
          in of_int (round_half_even (q / u)) * u)"

text \<open>Float addition and multiplication; an int operand is converted exactly first.\<close>

definition fadd :: "rat \<Rightarrow> rat \<Rightarrow> rat" where
  "fadd a b = fl (a + b)"

definition fmul :: "rat \<Rightarrow> rat \<Rightarrow> rat" where
  "fmul a b = fl (a * b)"

text \<open>\<^verbatim>\<open>int(v)\<close> of a float truncates towards zero.\<close>

definition py_trunc :: "rat \<Rightarrow> int" where
  "py_trunc v = (if 0 \<le> v then \<lfloor>v\<rfloor> else \<lceil>v\<rceil>)"

text \<open>The float literals \<^verbatim>\<open>0.45\<close> and \<^verbatim>\<open>-9.5\<close> (a negated literal).\<close>

definition GRAVITY :: rat where "GRAVITY = fl (45 / 100)"
definition FLAP_STRENGTH :: rat where "FLAP_STRENGTH = - fl (95 / 10)"

section \<open>Rectangles\<close>

text \<open>
  \<^verbatim>\<open>pygame.Rect\<close> holds four ints. \<^verbatim>\<open>colliderect\<close> is the test of pygame 2: a rectangle of
  width or height zero meets nothing, and otherwise the two overlap when each begins
  strictly before the other ends, on both axes. Assigning \<^verbatim>\<open>center\<close> moves the
  rectangle so that its left edge is the new centre minus half the width (rounded down).
\<close>

record Rect =
  rect_x :: int
  rect_y :: int
  rect_w :: int
  rect_h :: int

definition colliderect :: "Rect \<Rightarrow> Rect \<Rightarrow> bool" where
  "colliderect a b =
     (if rect_w a = 0 \<or> rect_h a = 0 \<or> rect_w b = 0 \<or> rect_h b = 0 then False
      else min (rect_x a) (rect_x a + rect_w a) < max (rect_x b) (rect_x b + rect_w b)
         \<and> min (rect_y a) (rect_y a + rect_h a) < max (rect_y b) (rect_y b + rect_h b)
         \<and> max (rect_x a) (rect_x a + rect_w a) > min (rect_x b) (rect_x b + rect_w b)
         \<and> max (rect_y a) (rect_y a + rect_h a) > min (rect_y b) (rect_y b + rect_h b))"

definition set_center :: "int \<Rightarrow> int \<Rightarrow> Rect \<Rightarrow> Rect" where
  "set_center cx cy r = r\<lparr>rect_x := cx - rect_w r div 2, rect_y := cy - rect_h r div 2\<rparr>"

section \<open>Random draws\<close>

text \<open>
  \<^verbatim>\<open>random.randint(a, b)\<close> returns some integer of \<open>[a, b]\<close>. The model takes the
  generator's raw output as an argument \<open>r\<close> and reduces it into the range, so every
  value of the range is the result for some \<open>r\<close> and no other value is.
\<close>

definition randint :: "int \<Rightarrow> int \<Rightarrow> nat \<Rightarrow> int" where
  "randint a b r = a + int (r mod nat (b - a + 1))"

section \<open>Game classes\<close>

subsection \<open>Bird\<close>

text \<open>
  The fields of \<^verbatim>\<open>class Bird\<close> that the simulation reads: \<^verbatim>\<open>x\<close>, \<^verbatim>\<open>w\<close>, \<^verbatim>\<open>h\<close> are ints,
  \<^verbatim>\<open>y\<close> starts as an int and is a float from the first update on, \<^verbatim>\<open>vel\<close> is a
  float. The sprite and the rectangle kept beside it are only written, never read by
  the update, and are left out.
\<close>

record Bird =
  bird_x :: int
  bird_y :: rat
  bird_w :: int
  bird_h :: int
  bird_vel :: rat
  bird_rotation :: rat

definition Bird_init :: "int \<Rightarrow> int \<Rightarrow> Bird" where
  "Bird_init x y = \<lparr>bird_x = x, bird_y = of_int y, bird_w = BIRD_WIDTH, bird_h = BIRD_HEIGHT,
     bird_vel = 0, bird_rotation = 0\<rparr>"

definition flap :: "Bird \<Rightarrow> Bird" where
  "flap b = b\<lparr>bird_vel := FLAP_STRENGTH\<rparr>"

definition Bird_update :: "Bird \<Rightarrow> Bird" where
  "Bird_update b =
     (let v = fadd (bird_vel b) GRAVITY;
          y = fadd (bird_y b) v
      in b\<lparr>bird_vel := v, bird_y := y,
            bird_rotation := max (- 25) (min 90 (fmul (- v) 3))\<rparr>)"


subsection \<open>Pipe\<close>

text \<open>
  \<^verbatim>\<open>Pipe(x)\<close> draws its gap offset with
  \<^verbatim>\<open>random.randint(int(HEIGHT * 0.2), int(HEIGHT - FLOOR_HEIGHT - PIPE_GAP - 20))\<close>; the
  second argument \<open>r\<close> is the raw draw. The lower bound is a float product truncated,
  the upper bound is an int already.
\<close>

record Pipe =
  pipe_x :: int
  pipe_w :: int
  pipe_gap_y :: int
  pipe_passed :: bool

definition gap_lo :: int where
  "gap_lo = py_trunc (fmul (of_int HEIGHT) (fl (2 / 10)))"

definition gap_hi :: int where
  "gap_hi = HEIGHT - FLOOR_HEIGHT - PIPE_GAP - 20"

definition Pipe_init :: "int \<Rightarrow> nat \<Rightarrow> Pipe" where
  "Pipe_init x r = \<lparr>pipe_x = x, pipe_w = PIPE_WIDTH, pipe_gap_y = randint gap_lo gap_hi r,
     pipe_passed = False\<rparr>"

definition Pipe_update :: "int \<Rightarrow> Pipe \<Rightarrow> Pipe" where
  "Pipe_update speed p = p\<lparr>pipe_x := pipe_x p - speed\<rparr>"

definition Pipe_offscreen :: "Pipe \<Rightarrow> bool" where
  "Pipe_offscreen p = (pipe_x p + pipe_w p < 0)"

definition top_rect :: "Pipe \<Rightarrow> Rect" where
  "top_rect p = \<lparr>rect_x = pipe_x p, rect_y = 0, rect_w = pipe_w p, rect_h = pipe_gap_y p\<rparr>"

definition bottom_rect :: "Pipe \<Rightarrow> Rect" where
  "bottom_rect p = \<lparr>rect_x = pipe_x p, rect_y = pipe_gap_y p + PIPE_GAP, rect_w = pipe_w p,
     rect_h = HEIGHT - FLOOR_HEIGHT - (pipe_gap_y p + PIPE_GAP)\<rparr>"

subsection \<open>Coin\<close>

record Coin =
  coin_x :: int
  coin_y :: int
  coin_radius :: int
  coin_rect :: Rect

definition Coin_init :: "int \<Rightarrow> int \<Rightarrow> Coin" where
  "Coin_init x y = \<lparr>coin_x = x, coin_y = y, coin_radius = COIN_RADIUS,
     coin_rect = \<lparr>rect_x = x - COIN_RADIUS, rect_y = y - COIN_RADIUS,
       rect_w = COIN_RADIUS * 2, rect_h = COIN_RADIUS * 2\<rparr>\<rparr>"

definition Coin_update :: "int \<Rightarrow> Coin \<Rightarrow> Coin" where
  "Coin_update speed c =
     (let x = coin_x c - speed
      in c\<lparr>coin_x := x, coin_rect := set_center x (coin_y c) (coin_rect c)\<rparr>)"

definition Coin_offscreen :: "Coin \<Rightarrow> bool" where
  "Coin_offscreen c = (coin_x c + coin_radius c < 0)"

subsection \<open>Particle\<close>

text \<open>The colour of a particle is a constant used for drawing only and is left out.\<close>

record Particle =
  particle_x :: int
  particle_y :: int
  particle_lifetime :: int

definition Particle_init :: "int \<Rightarrow> int \<Rightarrow> Particle" where
  "Particle_init x y = \<lparr>particle_x = x, particle_y = y, particle_lifetime = PARTICLE_LIFETIME\<rparr>"

definition Particle_update :: "Particle \<Rightarrow> Particle" where
  "Particle_update p =
     p\<lparr>particle_lifetime := particle_lifetime p - 1, particle_y := particle_y p - 1\<rparr>"

section \<open>The high-score file\<close>













text \<open>
  \<^verbatim>\<open>save_highscore\<close> writes best effort and never reports back, so the session only
  records the values it asked to be written, oldest first.
\<close>

definition save_highscore :: "int \<Rightarrow> int list \<Rightarrow> int list" where
  "save_highscore sc written = written @ [sc]"

section \<open>The session\<close>

text \<open>
  The variables of \<^verbatim>\<open>main\<close> that the loop reads and writes. \<open>saved\<close> is the record of
  \<^verbatim>\<open>save_highscore\<close> calls. The state strings are \<^verbatim>\<open>'menu'\<close>, \<^verbatim>\<open>'playing'\<close> and
  \<^verbatim>\<open>'gameover'\<close>; pausing is the separate flag \<open>paused\<close>.
\<close>

datatype game_state = Menu | Playing | GameOver

record session =
  state :: game_state
  score :: int
  paused :: bool
  highscore :: int
  bird :: Bird
  pipes :: "Pipe list"
  coins :: "Coin list"
  particles :: "Particle list"
  running :: bool
  just_started_cooldown :: int
  saved :: "int list"

text \<open>
  The session before the first frame, given the loaded high score and the raw draws
  \<open>rs 0\<close>, \<open>rs 1\<close> of the two pipes.
\<close>

definition main_init :: "int \<Rightarrow> (nat \<Rightarrow> nat) \<Rightarrow> session" where
  "main_init hs rs = \<lparr>state = Menu, score = 0, paused = False, highscore = hs,
     bird = Bird_init BIRD_X (HEIGHT div 2 - BIRD_HEIGHT div 2),
     pipes = [Pipe_init (WIDTH + 150) (rs 0), Pipe_init (WIDTH + 150 + PIPE_SPACING) (rs 1)],
     coins = [], particles = [], running = True, just_started_cooldown = 0, saved = []\<rparr>"

definition reset_game :: "(nat \<Rightarrow> nat) \<Rightarrow> session \<Rightarrow> session" where
  "reset_game rs s = s\<lparr>
     bird := Bird_init BIRD_X (HEIGHT div 2 - BIRD_HEIGHT div 2),
     pipes := map (\<lambda>i. Pipe_init (WIDTH + int i * PIPE_SPACING + 200) (rs i)) [0..<2],
     coins := [], particles := [], score := 0, state := Playing, paused := False\<rparr>"

subsection \<open>Events\<close>

datatype key = K_SPACE | K_UP | K_p | K_ESCAPE | K_other

datatype event = QUIT | KEYDOWN key | MOUSEBUTTONDOWN int | OTHER

text \<open>The three-way branch shared by the space/up keys and the left mouse button.\<close>

definition primary_action :: "(nat \<Rightarrow> nat) \<Rightarrow> session \<Rightarrow> session" where
  "primary_action rs s =
     (if state s = Menu then (reset_game rs s)\<lparr>just_started_cooldown := 10\<rparr>
      else if state s = Playing \<and> just_started_cooldown s = 0 \<and> \<not> paused s
        then s\<lparr>bird := flap (bird s)\<rparr>
      else if state s = GameOver then (reset_game rs s)\<lparr>just_started_cooldown := 10\<rparr>
      else s)"

fun handle_event :: "(nat \<Rightarrow> nat) \<Rightarrow> event \<Rightarrow> session \<Rightarrow> session" where
  "handle_event rs QUIT s = s\<lparr>running := False\<rparr>"
| "handle_event rs (KEYDOWN k) s =
     (let s1 = (if k = K_SPACE \<or> k = K_UP then primary_action rs s else s);
          s2 = (if k = K_p \<and> state s1 = Playing then s1\<lparr>paused := \<not> paused s1\<rparr> else s1)
      in if k = K_ESCAPE then s2\<lparr>running := False\<rparr> else s2)"
| "handle_event rs (MOUSEBUTTONDOWN b) s = (if b = 1 then primary_action rs s else s)"
| "handle_event rs OTHER s = s"

subsection \<open>The update of one frame\<close>

text \<open>
  The raw draws one update may consume: the new pipe's gap, whether
  \<^verbatim>\<open>random.random() < 0.5\<close>, and the coin's height.
\<close>

record tick_rand =
  gap_draw :: nat
  coin_flip :: bool
  coin_draw :: nat

text \<open>\<^verbatim>\<open>pipe_speed = PIPE_SPEED_BASE + score // 10\<close>; Python's \<^verbatim>\<open>//\<close> rounds down, as \<open>div\<close>.\<close>

definition pipe_speed :: "int \<Rightarrow> int" where
  "pipe_speed sc = PIPE_SPEED_BASE + sc div 10"

definition spawn :: "tick_rand \<Rightarrow> Pipe list \<Rightarrow> Coin list \<Rightarrow> Pipe list \<times> Coin list" where
  "spawn r ps cs =
     (if ps = [] \<or> pipe_x (last ps) < WIDTH - PIPE_SPACING then
        (let ps1 = ps @ [Pipe_init (WIDTH + 20) (gap_draw r)]
         in if coin_flip r then
              (let coin_y = randint (pipe_gap_y (last ps1) + 20)
                                    (pipe_gap_y (last ps1) + PIPE_GAP - 20) (coin_draw r)
               in (ps1, cs @ [Coin_init (WIDTH + 20) coin_y]))
            else (ps1, cs))
      else (ps, cs))"

definition advance_pipes :: "int \<Rightarrow> Pipe list \<Rightarrow> Pipe list" where
  "advance_pipes speed ps = filter (\<lambda>p. \<not> Pipe_offscreen p) (map (Pipe_update speed) ps)"

definition advance_coins :: "int \<Rightarrow> Coin list \<Rightarrow> Coin list" where
  "advance_coins speed cs = filter (\<lambda>c. \<not> Coin_offscreen c) (map (Coin_update speed) cs)"

definition advance_particles :: "Particle list \<Rightarrow> Particle list" where
  "advance_particles ps = filter (\<lambda>p. 0 < particle_lifetime p) (map Particle_update ps)"

definition bird_rect :: "Bird \<Rightarrow> Rect" where
  "bird_rect b = \<lparr>rect_x = bird_x b, rect_y = py_trunc (bird_y b),
     rect_w = bird_w b, rect_h = bird_h b\<rparr>"

text \<open>The body of the pipe loop for one pipe: the hit test, then the passed flag.\<close>

definition hits_pipe :: "Rect \<Rightarrow> Pipe \<Rightarrow> bool" where
  "hits_pipe br p = (colliderect br (top_rect p) \<or> colliderect br (bottom_rect p))"

definition just_passed :: "Bird \<Rightarrow> Pipe \<Rightarrow> bool" where
  "just_passed b p = (\<not> pipe_passed p \<and> pipe_x p + pipe_w p < bird_x b)"

fun collide_pipes :: "Bird \<Rightarrow> Rect \<Rightarrow> Pipe list \<Rightarrow> bool \<Rightarrow> int \<Rightarrow> bool \<times> int \<times> Pipe list" where
  "collide_pipes b br [] hit sc = (hit, sc, [])"
| "collide_pipes b br (p # ps) hit sc =
     (let hit1 = (if hits_pipe br p then True else hit);
          p1 = (if just_passed b p then p\<lparr>pipe_passed := True\<rparr> else p);
          sc1 = (if just_passed b p then sc + 1 else sc);
          (hit2, sc2, ps2) = collide_pipes b br ps hit1 sc1
      in (hit2, sc2, p1 # ps2))"

text \<open>
  The coin loop runs over a copy of the list and removes from the live list; its
  state is the score, the live coins and the particles. \<^verbatim>\<open>coins.remove(c)\<close> removes
  the object \<open>c\<close> itself; \<open>remove1\<close> removes the first coin equal to it, which leaves
  the same list of values, since equal coins sit at the same place.
\<close>

fun collide_coins :: "Rect \<Rightarrow> Coin list \<Rightarrow> int \<times> Coin list \<times> Particle list
    \<Rightarrow> int \<times> Coin list \<times> Particle list" where
  "collide_coins br [] st = st"
| "collide_coins br (c # cs) (sc, live, parts) =
     (if colliderect br (coin_rect c) then
        collide_coins br cs (sc + COIN_BONUS, remove1 c live,
          parts @ map (\<lambda>_. Particle_init (coin_x c) (coin_y c)) [0..<5])
      else collide_coins br cs (sc, live, parts))"

definition hits_bounds :: "Bird \<Rightarrow> bool" where
  "hits_bounds b = (of_int (HEIGHT - FLOOR_HEIGHT) \<le> fadd (bird_y b) (of_int (bird_h b))
     \<or> bird_y b \<le> 0)"

definition game_over :: "session \<Rightarrow> session" where
  "game_over s =
     (let s1 = s\<lparr>state := GameOver\<rparr>
      in if highscore s1 < score s1
         then s1\<lparr>highscore := score s1, saved := save_highscore (score s1) (saved s1)\<rparr>
         else s1)"

definition update_playing :: "tick_rand \<Rightarrow> session \<Rightarrow> session" where
  "update_playing r s =
     (let cd = (if 0 < just_started_cooldown s then just_started_cooldown s - 1
                else just_started_cooldown s);
          b = Bird_update (bird s);
          speed = pipe_speed (score s);
          (ps1, cs1) = spawn r (pipes s) (coins s);
          ps2 = advance_pipes speed ps1;
          cs2 = advance_coins speed cs1;
          pts2 = advance_particles (particles s);
          br = bird_rect b;
          (hit1, sc1, ps3) = collide_pipes b br ps2 False (score s);
          (sc2, cs3, pts3) = collide_coins br cs2 (sc1, cs2, pts2);
          hit2 = (if hits_bounds b then True else hit1);
          s1 = s\<lparr>just_started_cooldown := cd, bird := b, pipes := ps3, coins := cs3,
                 particles := pts3, score := sc2\<rparr>
      in if hit2 then game_over s1 else s1)"

definition update :: "tick_rand \<Rightarrow> session \<Rightarrow> session" where
  "update r s = (if state s = Playing \<and> \<not> paused s then update_playing r s else s)"

text \<open>
  One iteration of the main loop: the frame's events in order, each with the draws a
  reset would take, then the update.
\<close>

definition frame :: "((nat \<Rightarrow> nat) \<times> event) list \<Rightarrow> tick_rand \<Rightarrow> session \<Rightarrow> session" where
  "frame evs r s = update r (fold (\<lambda>(rs, e). handle_event rs e) evs s)"

text \<open>
  The entities as the collision pass of an update sees them: the bird after its
  update, and the pipes and coins after spawning, moving and pruning.
\<close>

definition pass_bird :: "session \<Rightarrow> Bird" where
  "pass_bird s = Bird_update (bird s)"

definition pass_pipes :: "tick_rand \<Rightarrow> session \<Rightarrow> Pipe list" where
  "pass_pipes r s = advance_pipes (pipe_speed (score s)) (fst (spawn r (pipes s) (coins s)))"

definition pass_coins :: "tick_rand \<Rightarrow> session \<Rightarrow> Coin list" where
  "pass_coins r s = advance_coins (pipe_speed (score s)) (snd (spawn r (pipes s) (coins s)))"

section \<open>The life of one pipe\<close>

text \<open>
  What one update does to a pipe that stays on screen, and the points it adds: the
  pipe moves, then the loop body sets the passed flag. \<open>pipe_life\<close> is the pipe after
  each of a run of updates with the given scroll speeds, with the points of each.
  \<open>behind\<close> is the test of the loop: the pipe's right edge is left of the bird.
\<close>

definition pipe_step :: "Bird \<Rightarrow> int \<Rightarrow> Pipe \<Rightarrow> Pipe \<times> int" where
  "pipe_step b speed p =
     (let p1 = Pipe_update speed p
      in if just_passed b p1 then (p1\<lparr>pipe_passed := True\<rparr>, 1) else (p1, 0))"

fun pipe_life :: "Bird \<Rightarrow> int list \<Rightarrow> Pipe \<Rightarrow> (Pipe \<times> int) list" where
  "pipe_life b [] p = []"
| "pipe_life b (v # vs) p = pipe_step b v p # pipe_life b vs (fst (pipe_step b v p))"

definition behind :: "Bird \<Rightarrow> Pipe \<Rightarrow> bool" where
  "behind b p = (pipe_x p + pipe_w p < bird_x b)"

section \<open>Sample sessions\<close>

text \<open>
  Concrete sessions on which the theorems below are instantiated: a session just
  started from the menu, one whose bird is about to reach the floor, one with a coin
  under the bird and a pipe behind it, and one where all of that happens on the tick
  that ends the game.
\<close>

definition demo_rs :: "nat \<Rightarrow> nat" where "demo_rs i = 0"

definition demo_rand :: tick_rand where
  "demo_rand = \<lparr>gap_draw = 0, coin_flip = True, coin_draw = 0\<rparr>"

definition demo_playing :: session where
  "demo_playing = handle_event demo_rs (KEYDOWN K_SPACE) (main_init 0 demo_rs)"

definition demo_falling :: session where
  "demo_falling = demo_playing\<lparr>bird := (bird demo_playing)\<lparr>bird_y := 520\<rparr>\<rparr>"

definition demo_coins :: session where
  "demo_coins = demo_playing\<lparr>coins := [Coin_init 95 320, Coin_init 300 320],
     pipes := [Pipe_init 5 0, Pipe_init 300 0]\<rparr>"

definition demo_fatal :: session where
  "demo_fatal = demo_playing\<lparr>bird := (bird demo_playing)\<lparr>bird_y := 520\<rparr>,
     coins := [Coin_init 95 530, Coin_init 300 320],
     pipes := [Pipe_init 5 0, Pipe_init 300 0], score := 7, highscore := 10\<rparr>"

definition demo_pipe :: Pipe where
  "demo_pipe = Pipe_init 90 5"

section \<open>Properties\<close>

subsection \<open>The loops of the collision pass\<close>

lemma mark_passed: "just_passed b p \<Longrightarrow>
    p\<lparr>pipe_passed := pipe_passed p \<or> pipe_x p + pipe_w p < bird_x b\<rparr> = p\<lparr>pipe_passed := True\<rparr>"
  by (simp add: just_passed_def)

lemma mark_kept: "\<not> just_passed b p \<Longrightarrow>
    p\<lparr>pipe_passed := pipe_passed p \<or> pipe_x p + pipe_w p < bird_x b\<rparr> = p"
  by (cases "pipe_passed p") (auto simp: just_passed_def)

lemma collide_pipes_eq:
  "collide_pipes b br ps hit sc =
     (hit \<or> (\<exists>p\<in>set ps. hits_pipe br p),
      sc + int (length (filter (just_passed b) ps)),
      map (\<lambda>p. p\<lparr>pipe_passed := pipe_passed p \<or> pipe_x p + pipe_w p < bird_x b\<rparr>) ps)"
proof (induction ps arbitrary: hit sc)
  case Nil
  show ?case by simp
next
  case (Cons p ps)
  show ?case
    by (auto simp: Let_def Cons.IH mark_passed mark_kept)
qed

lemma collide_coins_eq:
  "\<forall>c\<in>set pre. \<not> colliderect br (coin_rect c) \<Longrightarrow>
   collide_coins br cs (sc, pre @ cs, parts) =
     (sc + COIN_BONUS * int (length (filter (\<lambda>c. colliderect br (coin_rect c)) cs)),
      pre @ filter (\<lambda>c. \<not> colliderect br (coin_rect c)) cs,
      parts @ concat (map (\<lambda>c. replicate 5 (Particle_init (coin_x c) (coin_y c)))
                        (filter (\<lambda>c. colliderect br (coin_rect c)) cs)))"
proof (induction cs arbitrary: sc pre parts)
  case Nil
  show ?case by simp
next
  case (Cons c cs)
  show ?case
  proof (cases "colliderect br (coin_rect c)")
    case True
    with Cons.prems have "c \<notin> set pre" by blast
    then have rm: "remove1 c (pre @ c # cs) = pre @ cs"
      by (simp add: remove1_append)
    have five: "map (\<lambda>_. Particle_init (coin_x c) (coin_y c)) [0..<5]
                = replicate 5 (Particle_init (coin_x c) (coin_y c))"
      by (simp add: map_replicate_const)
    show ?thesis
      using True Cons.IH [OF Cons.prems] by (simp add: rm five algebra_simps)
  next
    case False
    with Cons.prems have "\<forall>c\<in>set (pre @ [c]). \<not> colliderect br (coin_rect c)" by simp
    from Cons.IH [OF this] False show ?thesis by simp
  qed
qed

lemma update_playing_eq:
  "update_playing r s =
     (let b = pass_bird s; br = bird_rect b; ps = pass_pipes r s; cs = pass_coins r s;
          s1 = s\<lparr>just_started_cooldown :=
                   (if 0 < just_started_cooldown s then just_started_cooldown s - 1
                    else just_started_cooldown s),
                 bird := b,
                 pipes := map (\<lambda>p. p\<lparr>pipe_passed :=
                            pipe_passed p \<or> pipe_x p + pipe_w p < bird_x b\<rparr>) ps,
                 coins := filter (\<lambda>c. \<not> colliderect br (coin_rect c)) cs,
                 particles := advance_particles (particles s)
                   @ concat (map (\<lambda>c. replicate 5 (Particle_init (coin_x c) (coin_y c)))
                        (filter (\<lambda>c. colliderect br (coin_rect c)) cs)),
                 score := score s + int (length (filter (just_passed b) ps))
                   + COIN_BONUS * int (length (filter (\<lambda>c. colliderect br (coin_rect c)) cs))\<rparr>
      in if (\<exists>p\<in>set ps. hits_pipe br p) \<or> hits_bounds b then game_over s1 else s1)"
  using collide_coins_eq [where pre = "[]"]
  by (simp add: update_playing_def Let_def case_prod_beta collide_pipes_eq
      pass_bird_def pass_pipes_def pass_coins_def)

lemma pipe_step_fst:
  "fst (pipe_step b v p) =
     (Pipe_update v p)\<lparr>pipe_passed := pipe_passed p \<or> behind b (Pipe_update v p)\<rparr>"
  by (cases "pipe_passed p")
    (auto simp: pipe_step_def Let_def just_passed_def behind_def Pipe_update_def)

lemma pipe_step_snd:
  "snd (pipe_step b v p) = (if \<not> pipe_passed p \<and> behind b (Pipe_update v p) then 1 else 0)"
  by (auto simp: pipe_step_def Let_def just_passed_def behind_def Pipe_update_def)

lemma behind_fst_step: "behind b (fst (pipe_step b v p)) = behind b (Pipe_update v p)"
  by (simp add: pipe_step_fst behind_def)

lemma life_passed:
  "n < length vs \<Longrightarrow>
   pipe_passed (fst (pipe_life b vs p ! n)) =
     (pipe_passed p \<or> (\<exists>k\<le>n. behind b (fst (pipe_life b vs p ! k))))"
proof (induction vs arbitrary: p n)
  case Nil
  then show ?case by simp
next
  case (Cons v vs)
  show ?case
  proof (cases n)
    case 0
    then show ?thesis by (simp add: pipe_step_fst behind_def)
  next
    case (Suc m)
    with Cons.prems have m: "m < length vs" by simp
    have ex: "(\<exists>k\<le>Suc m. Q k) = (Q 0 \<or> (\<exists>k\<le>m. Q (Suc k)))" for Q :: "nat \<Rightarrow> bool"
      by (metis Suc_le_mono le0 not0_implies_Suc)
    show ?thesis
      using Cons.IH [OF m, of "fst (pipe_step b v p)"] Suc
      by (simp add: ex behind_fst_step) (auto simp: pipe_step_fst)
  qed
qed

lemma life_points:
  "n < length vs \<Longrightarrow>
   snd (pipe_life b vs p ! n) =
     (if \<not> pipe_passed p \<and> behind b (fst (pipe_life b vs p ! n))
          \<and> (\<forall>k<n. \<not> behind b (fst (pipe_life b vs p ! k))) then 1 else 0)"
proof (induction vs arbitrary: p n)
  case Nil
  then show ?case by simp
next
  case (Cons v vs)
  show ?case
  proof (cases n)
    case 0
    then show ?thesis by (simp add: pipe_step_snd behind_fst_step)
  next
    case (Suc m)
    with Cons.prems have m: "m < length vs" by simp
    have al: "(\<forall>k<Suc m. Q k) = (Q 0 \<and> (\<forall>k<m. Q (Suc k)))" for Q :: "nat \<Rightarrow> bool"
      by (metis Suc_less_eq less_Suc_eq_0_disj)
    show ?thesis
      using Cons.IH [OF m, of "fst (pipe_step b v p)"] Suc
      by (simp add: al behind_fst_step) (auto simp: pipe_step_fst)
  qed
qed


subsection \<open>Flap\<close>

text \<open>
  C9. Whatever the velocity was, \<open>flap\<close> leaves it equal to the flap constant: the
  old velocity plays no part, and flapping twice gives the bird that flapping once
  gives.
\<close>

theorem flap_sets_velocity:
  "bird_vel (flap b) = FLAP_STRENGTH \<and> flap (flap b) = flap b"
  by (simp add: flap_def)

subsection \<open>Scroll speed\<close>

text \<open>
  C5. The scroll speed of a tick is the base speed plus the score divided by ten,
  rounded down: it is the base speed at scores 0 and 9, one more at score 10, and it
  never decreases as the score grows.
\<close>

theorem pipe_speed_step:
  "sc1 \<le> sc2 \<Longrightarrow>
     pipe_speed sc = PIPE_SPEED_BASE + \<lfloor>(of_int sc :: rat) / 10\<rfloor>
   \<and> pipe_speed 0 = PIPE_SPEED_BASE \<and> pipe_speed 9 = PIPE_SPEED_BASE
   \<and> pipe_speed 10 = PIPE_SPEED_BASE + 1
   \<and> pipe_speed sc1 \<le> pipe_speed sc2"
proof -
  assume le: "sc1 \<le> sc2"
  have fl_div: "\<lfloor>(of_int sc :: rat) / 10\<rfloor> = sc div 10"
    using floor_divide_of_int_eq [of sc 10, where ?'a = rat] by simp
  have mono: "sc1 div 10 \<le> sc2 div 10"
    using le by (rule zdiv_mono1) simp
  show ?thesis
    using fl_div mono by (simp add: pipe_speed_def)
qed

theorem pipe_speed_step_witness:
  "(9::int) \<le> 10
   \<and> pipe_speed 25 = PIPE_SPEED_BASE + \<lfloor>(of_int 25 :: rat) / 10\<rfloor>
   \<and> pipe_speed 25 = 5 \<and> pipe_speed 9 \<le> pipe_speed 10"
  using pipe_speed_step [where sc = 25 and ?sc1.0 = 9 and ?sc2.0 = 10] by (simp add: pipe_speed_def PIPE_SPEED_BASE_def)


subsection \<open>Game over\<close>

lemma state_game_over: "state (game_over s) = GameOver"
  by (simp add: game_over_def Let_def)

lemma update_playing_state:
  "state s = Playing \<Longrightarrow>
   (state (update_playing r s) = GameOver) =
     ((\<exists>p\<in>set (pass_pipes r s). hits_pipe (bird_rect (pass_bird s)) p) \<or> hits_bounds (pass_bird s))"
  by (simp add: update_playing_eq Let_def state_game_over)

text \<open>
  C1. An update of a playing, unpaused session ends in \<open>GameOver\<close> exactly when, at
  its collision pass, the bird's rectangle meets the top or bottom rectangle of some
  live pipe, or the bird's bottom edge \<open>y + h\<close> is at or below the floor line
  \<open>HEIGHT - FLOOR_HEIGHT\<close>, or its top edge \<open>y\<close> is at or above 0.
\<close>

theorem gameover_iff:
  "state s = Playing \<Longrightarrow> \<not> paused s \<Longrightarrow>
   (state (update r s) = GameOver) =
     ((\<exists>p\<in>set (pass_pipes r s).
          colliderect (bird_rect (pass_bird s)) (top_rect p)
        \<or> colliderect (bird_rect (pass_bird s)) (bottom_rect p))
      \<or> of_int (HEIGHT - FLOOR_HEIGHT) \<le> fadd (bird_y (pass_bird s)) (of_int (bird_h (pass_bird s)))
      \<or> bird_y (pass_bird s) \<le> 0)"
  by (simp add: update_def update_playing_state hits_pipe_def hits_bounds_def)

lemma demo_falling_playing: "state demo_falling = Playing \<and> \<not> paused demo_falling"
  by (simp add: demo_falling_def demo_playing_def main_init_def primary_action_def reset_game_def)

theorem gameover_iff_witness:
  "state demo_falling = Playing \<and> \<not> paused demo_falling
   \<and> state (update demo_rand demo_falling) = GameOver"
proof -
  have floor: "of_int (HEIGHT - FLOOR_HEIGHT)
      \<le> fadd (bird_y (pass_bird demo_falling)) (of_int (bird_h (pass_bird demo_falling)))"
    by code_simp
  from gameover_iff [of demo_falling demo_rand] demo_falling_playing floor
  show ?thesis by simp
qed

subsection \<open>The score of the fatal tick\<close>

lemma update_playing_score:
  "score (update_playing r s) =
     score s + int (length (filter (just_passed (pass_bird s)) (pass_pipes r s)))
     + COIN_BONUS * int (length (filter (\<lambda>c. colliderect (bird_rect (pass_bird s)) (coin_rect c))
                                   (pass_coins r s)))"
  by (simp add: update_playing_eq Let_def game_over_def)

lemma update_playing_highscore:
  "state (update_playing r s) = GameOver \<Longrightarrow> state s = Playing \<Longrightarrow>
     highscore (update_playing r s) = max (highscore s) (score (update_playing r s))
   \<and> saved (update_playing r s) =
       (if highscore s < score (update_playing r s)
        then saved s @ [score (update_playing r s)] else saved s)"
  by (simp add: update_playing_eq Let_def game_over_def save_highscore_def max_def
      split: if_splits)

text \<open>
  C10. When an update ends the game, the score it leaves already holds the points of
  that update (one per pipe just passed, the bonus per coin collected), and it is this
  score that is compared with the high score, replaces it and is handed to
  \<open>save_highscore\<close> when it is larger.
\<close>

theorem fatal_tick_score:
  "state s = Playing \<Longrightarrow> \<not> paused s \<Longrightarrow> state (update r s) = GameOver \<Longrightarrow>
     score (update r s) =
       score s + int (length (filter (just_passed (pass_bird s)) (pass_pipes r s)))
       + COIN_BONUS * int (length (filter (\<lambda>c. colliderect (bird_rect (pass_bird s)) (coin_rect c))
                                     (pass_coins r s)))
   \<and> highscore (update r s) = max (highscore s) (score (update r s))
   \<and> saved (update r s) =
       (if highscore s < score (update r s) then saved s @ [score (update r s)] else saved s)"
  using update_playing_highscore [of r s]
  by (simp add: update_def update_playing_score)

theorem fatal_tick_score_witness:
  "state demo_fatal = Playing \<and> \<not> paused demo_fatal
   \<and> state (update demo_rand demo_fatal) = GameOver
   \<and> score demo_fatal = 7 \<and> score (update demo_rand demo_fatal) = 13
   \<and> highscore demo_fatal = 10 \<and> highscore (update demo_rand demo_fatal) = 13
   \<and> saved (update demo_rand demo_fatal) = [13]"
proof -
  have pre: "state demo_fatal = Playing" "\<not> paused demo_fatal"
    "score demo_fatal = 7" "highscore demo_fatal = 10" "saved demo_fatal = []"
    by (simp_all add: demo_fatal_def demo_playing_def main_init_def primary_action_def
        reset_game_def)
  have over: "state (update demo_rand demo_fatal) = GameOver"
    by code_simp
  have sc: "score (update demo_rand demo_fatal) = 13"
    by code_simp
  from fatal_tick_score [OF pre(1) pre(2) over] pre sc over
  show ?thesis by simp
qed

subsection \<open>Coins\<close>

lemma game_over_keeps:
  "coins (game_over s) = coins s" "particles (game_over s) = particles s"
  "score (game_over s) = score s" "pipes (game_over s) = pipes s"
  "bird (game_over s) = bird s"
  by (simp_all add: game_over_def Let_def)



lemma update_playing_pipes:
  "pipes (update_playing r s) =
     map (\<lambda>p. p\<lparr>pipe_passed := pipe_passed p \<or> behind (pass_bird s) p\<rparr>) (pass_pipes r s)"
  by (simp add: update_playing_eq Let_def game_over_keeps behind_def)


lemma demo_coins_playing:
  "state demo_coins = Playing" "\<not> paused demo_coins" "score demo_coins = 0"
  "particles demo_coins = []"
  by (simp_all add: demo_coins_def demo_playing_def main_init_def primary_action_def
      reset_game_def)


subsection \<open>The gap of a pipe\<close>

lemma gap_lo_val: "gap_lo = 128"
  by code_simp

lemma randint_range: "a \<le> b \<Longrightarrow> a \<le> randint a b r \<and> randint a b r \<le> b"
proof -
  assume "a \<le> b"
  then have "0 < nat (b - a + 1)" by simp
  then have "r mod nat (b - a + 1) < nat (b - a + 1)" by (rule mod_less_divisor)
  then have "int (r mod nat (b - a + 1)) < b - a + 1" by linarith
  then show ?thesis by (simp add: randint_def)
qed

lemma Pipe_init_gap: "gap_lo \<le> pipe_gap_y (Pipe_init x r) \<and> pipe_gap_y (Pipe_init x r) \<le> gap_hi"
  using randint_range [of gap_lo gap_hi r]
  by (simp add: Pipe_init_def gap_lo_val gap_hi_def HEIGHT_def FLOOR_HEIGHT_def PIPE_GAP_def)

lemma pipe_step_gap: "pipe_gap_y (fst (pipe_step b v p)) = pipe_gap_y p"
  by (simp add: pipe_step_fst Pipe_update_def)

lemma life_gap: "(q, pts) \<in> set (pipe_life b vs p) \<Longrightarrow> pipe_gap_y q = pipe_gap_y p"
proof (induction vs arbitrary: p)
  case Nil
  then show ?case by simp
next
  case (Cons v vs)
  from Cons.prems have "(q, pts) = pipe_step b v p \<or> (q, pts) \<in> set (pipe_life b vs (fst (pipe_step b v p)))"
    by simp
  then show ?case
  proof
    assume "(q, pts) = pipe_step b v p"
    then have "q = fst (pipe_step b v p)" by (metis fst_conv)
    then show ?thesis by (simp add: pipe_step_gap)
  next
    assume "(q, pts) \<in> set (pipe_life b vs (fst (pipe_step b v p)))"
    from Cons.IH [OF this] show ?thesis by (simp add: pipe_step_gap)
  qed
qed

text \<open>
  C7. A constructed pipe has its gap offset between \<open>0.2 * HEIGHT\<close> and
  \<open>HEIGHT - FLOOR_HEIGHT - PIPE_GAP - 20\<close>, so its top rectangle (of that height) and
  its bottom rectangle (from the gap's lower end down to the floor line) have
  non-negative heights; and after any number of updates the pipe still has the same
  offset, the height of its top rectangle is the offset and its bottom rectangle
  starts at the offset plus \<open>PIPE_GAP\<close>. The two pieces of code that write to a pipe,
  \<open>Pipe_update\<close> and the pipe loop of the collision pass, leave the offset alone.
\<close>

theorem pipe_gap_invariant:
  "(q, pts) \<in> set (pipe_life b vs (Pipe_init x r)) \<Longrightarrow>
     (2 / 10) * of_int HEIGHT \<le> (of_int (pipe_gap_y (Pipe_init x r)) :: rat)
   \<and> pipe_gap_y (Pipe_init x r) \<le> HEIGHT - FLOOR_HEIGHT - PIPE_GAP - 20
   \<and> rect_h (top_rect (Pipe_init x r)) = pipe_gap_y (Pipe_init x r)
   \<and> 0 \<le> rect_h (top_rect (Pipe_init x r))
   \<and> rect_y (bottom_rect (Pipe_init x r)) + rect_h (bottom_rect (Pipe_init x r)) = HEIGHT - FLOOR_HEIGHT
   \<and> 0 \<le> rect_h (bottom_rect (Pipe_init x r))
   \<and> pipe_gap_y q = pipe_gap_y (Pipe_init x r)
   \<and> rect_h (top_rect q) = pipe_gap_y (Pipe_init x r)
   \<and> rect_y (bottom_rect q) = pipe_gap_y (Pipe_init x r) + PIPE_GAP
   \<and> pipe_gap_y (Pipe_update v p) = pipe_gap_y p
   \<and> map pipe_gap_y (snd (snd (collide_pipes b br ps hit sc))) = map pipe_gap_y ps"
proof -
  assume live: "(q, pts) \<in> set (pipe_life b vs (Pipe_init x r))"
  have lo: "128 \<le> pipe_gap_y (Pipe_init x r)" and hi: "pipe_gap_y (Pipe_init x r) \<le> 370"
    using Pipe_init_gap [of x r]
    by (simp_all add: gap_lo_val gap_hi_def HEIGHT_def FLOOR_HEIGHT_def PIPE_GAP_def)
  from lo have "(128::rat) \<le> of_int (pipe_gap_y (Pipe_init x r))"
    by (metis of_int_le_iff of_int_numeral)
  then have lo_rat: "(2 / 10) * of_int HEIGHT \<le> (of_int (pipe_gap_y (Pipe_init x r)) :: rat)"
    by (simp add: HEIGHT_def)
  have same: "pipe_gap_y q = pipe_gap_y (Pipe_init x r)"
    using live by (rule life_gap)
  have loop: "map pipe_gap_y (snd (snd (collide_pipes b br ps hit sc))) = map pipe_gap_y ps"
    by (simp add: collide_pipes_eq)
  show ?thesis
    using lo hi lo_rat same loop
    by (simp add: top_rect_def bottom_rect_def Pipe_update_def HEIGHT_def FLOOR_HEIGHT_def
        PIPE_GAP_def)
qed

theorem pipe_gap_invariant_witness:
  "pipe_life (bird demo_playing) [30, 30] demo_pipe
     = [(\<lparr>pipe_x = 60, pipe_w = 70, pipe_gap_y = 133, pipe_passed = False\<rparr>, 0),
        (\<lparr>pipe_x = 30, pipe_w = 70, pipe_gap_y = 133, pipe_passed = False\<rparr>, 0)]
   \<and> pipe_gap_y demo_pipe = 133
   \<and> rect_h (top_rect \<lparr>pipe_x = 30, pipe_w = 70, pipe_gap_y = 133, pipe_passed = False\<rparr>) = 133
   \<and> rect_y (bottom_rect \<lparr>pipe_x = 30, pipe_w = 70, pipe_gap_y = 133, pipe_passed = False\<rparr>)
        = 133 + PIPE_GAP
   \<and> 0 \<le> rect_h (bottom_rect demo_pipe)"
proof -
  have life: "pipe_life (bird demo_playing) [30, 30] (Pipe_init 90 5)
     = [(\<lparr>pipe_x = 60, pipe_w = 70, pipe_gap_y = 133, pipe_passed = False\<rparr>, 0),
        (\<lparr>pipe_x = 30, pipe_w = 70, pipe_gap_y = 133, pipe_passed = False\<rparr>, 0)]"
    by code_simp
  have gap: "pipe_gap_y (Pipe_init 90 5) = 133"
    by code_simp
  have mem: "(\<lparr>pipe_x = 30, pipe_w = 70, pipe_gap_y = 133, pipe_passed = False\<rparr>, 0)
      \<in> set (pipe_life (bird demo_playing) [30, 30] (Pipe_init 90 5))"
    unfolding life by simp
  from pipe_gap_invariant [OF mem] gap
  have "rect_h (top_rect \<lparr>pipe_x = 30, pipe_w = 70, pipe_gap_y = 133, pipe_passed = False\<rparr>) = 133
      \<and> rect_y (bottom_rect \<lparr>pipe_x = 30, pipe_w = 70, pipe_gap_y = 133, pipe_passed = False\<rparr>)
          = 133 + PIPE_GAP
      \<and> 0 \<le> rect_h (bottom_rect (Pipe_init 90 5))"
    by simp
  with life gap show ?thesis
    unfolding demo_pipe_def by blast
qed

subsection \<open>The passed flag\<close>

lemma sum_points:
  "sum_list (map (\<lambda>q. snd (pipe_step b v q)) ps)
     = int (length (filter (\<lambda>q. just_passed b (Pipe_update v q)) ps))"
  by (induction ps) (simp_all add: pipe_step_def Let_def)

text \<open>An update never moves the bird sideways, so every pass tests against the same line.\<close>

lemma pass_bird_x: "bird_x (pass_bird s) = bird_x (bird s)"
  by (simp add: pass_bird_def Bird_update_def Let_def)

lemma pass_pipes_steps:
  "map (\<lambda>p. p\<lparr>pipe_passed := pipe_passed p \<or> behind b p\<rparr>) (advance_pipes v ps)
     = map (\<lambda>q. fst (pipe_step b v q)) (filter (\<lambda>q. \<not> Pipe_offscreen (Pipe_update v q)) ps)"
  by (simp add: advance_pipes_def filter_map o_def pipe_step_fst Pipe_update_def)

lemma pass_pipes_points:
  "length (filter (just_passed b) (advance_pipes v ps))
     = length (filter (\<lambda>q. just_passed b (Pipe_update v q))
         (filter (\<lambda>q. \<not> Pipe_offscreen (Pipe_update v q)) ps))"
  by (simp add: advance_pipes_def filter_map o_def)

text \<open>
  C4. An update moves every pipe that stays on screen and then applies \<open>pipe_step\<close>'s
  flag rule to it: a pipe not yet passed whose right edge is now left of the bird
  becomes passed and adds one point, any other pipe is left as moved and adds
  nothing, in particular a pipe already passed. Over the life of a pipe constructed
  unpassed, the flag after an update is set exactly when the right edge has been left
  of the bird at that or an earlier collision pass, and the point is given at the
  first such pass and at no other.
\<close>

theorem passed_flag_once:
  "state s = Playing \<Longrightarrow> \<not> paused s \<Longrightarrow> \<not> pipe_passed p \<Longrightarrow> n < length vs \<Longrightarrow>
     pipes (update r s) =
       map (\<lambda>q. fst (pipe_step (pass_bird s) (pipe_speed (score s)) q))
         (filter (\<lambda>q. \<not> Pipe_offscreen (Pipe_update (pipe_speed (score s)) q))
            (fst (spawn r (pipes s) (coins s))))
   \<and> score (update r s) =
       score s
       + sum_list (map (\<lambda>q. snd (pipe_step (pass_bird s) (pipe_speed (score s)) q))
           (filter (\<lambda>q. \<not> Pipe_offscreen (Pipe_update (pipe_speed (score s)) q))
              (fst (spawn r (pipes s) (coins s)))))
       + COIN_BONUS * int (length (filter (\<lambda>c. colliderect (bird_rect (pass_bird s)) (coin_rect c))
                                     (pass_coins r s)))
   \<and> pipe_step b v q =
       (if \<not> pipe_passed q \<and> pipe_x q - v + pipe_w q < bird_x b
        then ((Pipe_update v q)\<lparr>pipe_passed := True\<rparr>, 1) else (Pipe_update v q, 0))
   \<and> pipe_passed (fst (pipe_life b vs p ! n)) =
       (\<exists>k\<le>n. behind b (fst (pipe_life b vs p ! k)))
   \<and> snd (pipe_life b vs p ! n) =
       (if behind b (fst (pipe_life b vs p ! n))
           \<and> (\<forall>k<n. \<not> behind b (fst (pipe_life b vs p ! k))) then 1 else 0)"
proof -
  assume play: "state s = Playing" "\<not> paused s" and fresh: "\<not> pipe_passed p"
    and n: "n < length vs"
  have a: "pipes (update r s) =
       map (\<lambda>q. fst (pipe_step (pass_bird s) (pipe_speed (score s)) q))
         (filter (\<lambda>q. \<not> Pipe_offscreen (Pipe_update (pipe_speed (score s)) q))
            (fst (spawn r (pipes s) (coins s))))"
    using play by (simp add: update_def update_playing_pipes pass_pipes_def pass_pipes_steps)
  have b: "score (update r s) =
       score s
       + sum_list (map (\<lambda>q. snd (pipe_step (pass_bird s) (pipe_speed (score s)) q))
           (filter (\<lambda>q. \<not> Pipe_offscreen (Pipe_update (pipe_speed (score s)) q))
              (fst (spawn r (pipes s) (coins s)))))
       + COIN_BONUS * int (length (filter (\<lambda>c. colliderect (bird_rect (pass_bird s)) (coin_rect c))
                                     (pass_coins r s)))"
    using play
    by (simp add: update_def update_playing_score sum_points pass_pipes_def pass_pipes_points)
  have c: "pipe_step b v q =
       (if \<not> pipe_passed q \<and> pipe_x q - v + pipe_w q < bird_x b
        then ((Pipe_update v q)\<lparr>pipe_passed := True\<rparr>, 1) else (Pipe_update v q, 0))"
    by (simp add: pipe_step_def Let_def just_passed_def Pipe_update_def)
  from a b c life_passed [OF n, of b p] life_points [OF n, of b p] fresh
  show ?thesis by simp
qed


theorem passed_flag_once_witness:
  "state demo_coins = Playing \<and> \<not> paused demo_coins \<and> \<not> pipe_passed demo_pipe
   \<and> pipe_life (bird demo_playing) [30, 30, 30, 30] demo_pipe
       = [(\<lparr>pipe_x = 60, pipe_w = 70, pipe_gap_y = 133, pipe_passed = False\<rparr>, 0),
          (\<lparr>pipe_x = 30, pipe_w = 70, pipe_gap_y = 133, pipe_passed = False\<rparr>, 0),
          (\<lparr>pipe_x = 0, pipe_w = 70, pipe_gap_y = 133, pipe_passed = True\<rparr>, 1),
          (\<lparr>pipe_x = - 30, pipe_w = 70, pipe_gap_y = 133, pipe_passed = True\<rparr>, 0)]
   \<and> pipe_passed (fst (pipe_life (bird demo_playing) [30, 30, 30, 30] demo_pipe ! 3))
       = (\<exists>k\<le>3. behind (bird demo_playing)
                   (fst (pipe_life (bird demo_playing) [30, 30, 30, 30] demo_pipe ! k)))
   \<and> map pipe_passed (pipes (update demo_rand demo_coins)) = [True, False]
   \<and> score (update demo_rand demo_coins) = 6"
proof -
  have fresh: "\<not> pipe_passed demo_pipe"
    by (simp add: demo_pipe_def Pipe_init_def)
  have n: "3 < length [30, 30, 30, 30 :: int]"
    by simp
  have life: "pipe_life (bird demo_playing) [30, 30, 30, 30] demo_pipe
       = [(\<lparr>pipe_x = 60, pipe_w = 70, pipe_gap_y = 133, pipe_passed = False\<rparr>, 0),
          (\<lparr>pipe_x = 30, pipe_w = 70, pipe_gap_y = 133, pipe_passed = False\<rparr>, 0),
          (\<lparr>pipe_x = 0, pipe_w = 70, pipe_gap_y = 133, pipe_passed = True\<rparr>, 1),
          (\<lparr>pipe_x = - 30, pipe_w = 70, pipe_gap_y = 133, pipe_passed = True\<rparr>, 0)]"
    by code_simp
  have flags: "map pipe_passed (pipes (update demo_rand demo_coins)) = [True, False]"
    by code_simp
  have sc: "score (update demo_rand demo_coins) = 6"
    by code_simp
  from passed_flag_once [OF demo_coins_playing(1,2) fresh n, of demo_rand "bird demo_playing"]
  have "pipe_passed (fst (pipe_life (bird demo_playing) [30, 30, 30, 30] demo_pipe ! 3))
       = (\<exists>k\<le>3. behind (bird demo_playing)
                   (fst (pipe_life (bird demo_playing) [30, 30, 30, 30] demo_pipe ! k)))"
    by blast
  with demo_coins_playing(1,2) fresh life flags sc show ?thesis
    by blast
qed

subsection \<open>Reset\<close>

text \<open>
  C8. From \<open>Menu\<close> or \<open>GameOver\<close>, the space key, the up key or the left mouse button
  leaves the score 0, a fresh bird whose vertical centre is the middle of the screen,
  exactly two unpassed pipes right of the screen edge, no coins and no particles, the
  state \<open>Playing\<close> with the pause cleared, and the cooldown counter 10.
\<close>

theorem reset_on_primary_action:
  "state s = Menu \<or> state s = GameOver \<Longrightarrow>
   e = KEYDOWN K_SPACE \<or> e = KEYDOWN K_UP \<or> e = MOUSEBUTTONDOWN 1 \<Longrightarrow>
   (let t = handle_event rs e s in
      score t = 0
    \<and> bird t = Bird_init BIRD_X (HEIGHT div 2 - BIRD_HEIGHT div 2)
    \<and> bird_y (bird t) + of_int (bird_h (bird t)) / 2 = of_int HEIGHT / 2
    \<and> bird_vel (bird t) = 0
    \<and> pipes t = [Pipe_init (WIDTH + 200) (rs 0), Pipe_init (WIDTH + PIPE_SPACING + 200) (rs 1)]
    \<and> length (pipes t) = 2
    \<and> (\<forall>p\<in>set (pipes t). WIDTH < pipe_x p \<and> \<not> pipe_passed p)
    \<and> coins t = [] \<and> particles t = []
    \<and> state t = Playing \<and> \<not> paused t
    \<and> just_started_cooldown t = 10)"
proof -
  assume st: "state s = Menu \<or> state s = GameOver"
    and ev: "e = KEYDOWN K_SPACE \<or> e = KEYDOWN K_UP \<or> e = MOUSEBUTTONDOWN 1"
  have two: "[0..<2] = [0, 1]"
    by (simp add: upt_rec)
  from st have act: "primary_action rs s = (reset_game rs s)\<lparr>just_started_cooldown := 10\<rparr>"
    by (auto simp: primary_action_def)
  from ev have "handle_event rs e s = primary_action rs s"
    using st by (auto simp: Let_def primary_action_def reset_game_def)
  with act have t: "handle_event rs e s = (reset_game rs s)\<lparr>just_started_cooldown := 10\<rparr>"
    by simp
  show ?thesis
    unfolding t Let_def
    by (simp add: reset_game_def two Bird_init_def Pipe_init_def WIDTH_def HEIGHT_def
        BIRD_HEIGHT_def PIPE_SPACING_def)
qed

theorem reset_on_primary_action_witness:
  "state (main_init 0 demo_rs) = Menu
   \<and> score demo_playing = 0 \<and> bird_y (bird demo_playing) = 308
   \<and> map pipe_x (pipes demo_playing) = [600, 750]
   \<and> coins demo_playing = [] \<and> particles demo_playing = []
   \<and> state demo_playing = Playing \<and> \<not> paused demo_playing
   \<and> just_started_cooldown demo_playing = 10"
proof -
  have menu: "state (main_init 0 demo_rs) = Menu \<or> state (main_init 0 demo_rs) = GameOver"
    by (simp add: main_init_def)
  have key: "KEYDOWN K_SPACE = KEYDOWN K_SPACE \<or> KEYDOWN K_SPACE = KEYDOWN K_UP
      \<or> KEYDOWN K_SPACE = MOUSEBUTTONDOWN 1"
    by simp
  from reset_on_primary_action [OF menu key, of demo_rs]
  show ?thesis
    unfolding demo_playing_def [symmetric] Let_def
    by (simp add: main_init_def Bird_init_def Pipe_init_def WIDTH_def HEIGHT_def
        BIRD_HEIGHT_def PIPE_SPACING_def)
qed

subsection \<open>Loading the high score\<close>








subsection \<open>Bird ticks\<close>







end
